theory Spec2Isabelle
  imports Complex_Main
begin

section \<open>Conventions of the embedding\<close>

text \<open>
  The trading bot is Python. Its \<open>float\<close> values are modelled by the type \<open>real\<close>:
  rounding, infinities and NaN are not represented, and a comment marks each place where
  the source could produce one of them. A column or variable that may hold \<open>None\<close> is an
  \<open>option\<close>. UUID primary keys are natural numbers drawn from a counter. A function
  whose body sits in \<open>try: ... except Exception\<close> returns, in the model, the value of
  the handler on every path on which the source raises.
\<close>

subsection \<open>Python and numpy helpers\<close>

text \<open>\<open>xs[-n:]\<close>: the last \<open>n\<close> elements; \<open>xs[-0:]\<close> is the whole list.\<close>

definition py_tail :: "nat \<Rightarrow> 'a list \<Rightarrow> 'a list" where
  "py_tail n xs = (if n = 0 then xs else drop (length xs - n) xs)"

text \<open>\<open>np.diff\<close>: differences of neighbours.\<close>

definition np_diff :: "real list \<Rightarrow> real list" where
  "np_diff xs = map (\<lambda>(a, b). b - a) (zip xs (tl xs))"

text \<open>\<open>np.mean\<close>. On an empty array numpy yields NaN; the callers below reach it with
  a non-empty array only when their window parameter is positive.\<close>

definition np_mean :: "real list \<Rightarrow> real" where
  "np_mean xs = sum_list xs / real (length xs)"

text \<open>\<open>np.std\<close> (population standard deviation, \<open>ddof = 0\<close>).\<close>

definition np_std :: "real list \<Rightarrow> real" where
  "np_std xs = sqrt (np_mean (map (\<lambda>x. (x - np_mean xs)\<^sup>2) xs))"

text \<open>\<open>pandas.Series.std\<close> (sample standard deviation, \<open>ddof = 1\<close>).\<close>

definition pd_std :: "real list \<Rightarrow> real" where
  "pd_std xs = sqrt (sum_list (map (\<lambda>x. (x - np_mean xs)\<^sup>2) xs) / (real (length xs) - 1))"

text \<open>\<open>Series.ewm(span=s).mean()\<close> with pandas' default \<open>adjust=True\<close>: at each point
  the weighted mean of all samples so far, the sample \<open>i\<close> steps back weighing
  \<open>(1 - \<alpha>) ^ i\<close> with \<open>\<alpha> = 2 / (s + 1)\<close>.\<close>

definition ewm_last :: "nat \<Rightarrow> real list \<Rightarrow> real" where
  "ewm_last s xs =
     (let a = 2 / (real s + 1);
          ws = map (\<lambda>i. (1 - a) ^ i) [0..<length xs]
      in sum_list (map (\<lambda>(w, x). w * x) (zip ws (rev xs))) / sum_list ws)"

definition ewm_mean :: "nat \<Rightarrow> real list \<Rightarrow> real list" where
  "ewm_mean s xs = map (\<lambda>n. ewm_last s (take (Suc n) xs)) [0..<length xs]"

text \<open>The slope that \<open>np.polyfit(x, y, 1)\<close> returns for \<open>x = 0, 1, ..., n - 1\<close>: the
  least-squares line.\<close>

definition polyfit_slope :: "real list \<Rightarrow> real" where
  "polyfit_slope ys =
     (let n = real (length ys);
          xs = map real [0..<length ys];
          sx = sum_list xs;
          sy = sum_list ys;
          sxy = sum_list (map (\<lambda>(x, y). x * y) (zip xs ys));
          sxx = sum_list (map (\<lambda>x. x * x) xs)
      in (n * sxy - sx * sy) / (n * sxx - sx * sx))"

text \<open>Python's \<open>max\<close> and \<open>min\<close> of a non-empty list.\<close>

definition py_max :: "real list \<Rightarrow> real" where
  "py_max xs = fold max (tl xs) (hd xs)"

definition py_min :: "real list \<Rightarrow> real" where
  "py_min xs = fold min (tl xs) (hd xs)"

text \<open>\<open>round(x, n)\<close> on a float: to \<open>n\<close> decimal places, ties to even.\<close>

definition round_half_even :: "real \<Rightarrow> int" where
  "round_half_even x =
     (let f = \<lfloor>x\<rfloor>; d = x - of_int f
      in if d < 1 / 2 then f else if 1 / 2 < d then f + 1
         else if even f then f else f + 1)"

definition py_round :: "real \<Rightarrow> int \<Rightarrow> real" where
  "py_round x n =
     (if 0 \<le> n then of_int (round_half_even (x * 10 ^ nat n)) / 10 ^ nat n
      else of_int (round_half_even (x / 10 ^ nat (- n))) * 10 ^ nat (- n))"

section \<open>Indicator engine (market_analysis_service.py)\<close>

text \<open>Window parameters are Python ints with positive defaults (14, 12/26/9, 20); every
  call in the repository uses the defaults. They are natural numbers here.\<close>

definition rsi_gains :: "real list \<Rightarrow> real list" where
  "rsi_gains prices = map (\<lambda>d. if 0 < d then d else 0) (np_diff prices)"

definition rsi_losses :: "real list \<Rightarrow> real list" where
  "rsi_losses prices = map (\<lambda>d. if d < 0 then - d else 0) (np_diff prices)"

definition rsi_avg_gain :: "real list \<Rightarrow> nat \<Rightarrow> real" where
  "rsi_avg_gain prices period = np_mean (py_tail period (rsi_gains prices))"

definition rsi_avg_loss :: "real list \<Rightarrow> nat \<Rightarrow> real" where
  "rsi_avg_loss prices period = np_mean (py_tail period (rsi_losses prices))"

definition calculate_rsi :: "real list \<Rightarrow> nat \<Rightarrow> real option" where
  "calculate_rsi prices period =
     (if length prices < period + 1 then None
      else if rsi_avg_loss prices period = 0 then Some 100
      else Some (100 - 100 / (1 + rsi_avg_gain prices period / rsi_avg_loss prices period)))"

definition calculate_macd ::
  "real list \<Rightarrow> nat \<Rightarrow> nat \<Rightarrow> nat \<Rightarrow> real option \<times> real option \<times> real option" where
  "calculate_macd prices fast slow signal =
     (if length prices < slow + signal then (None, None, None)
      else
        let ema_fast = ewm_mean fast prices;
            ema_slow = ewm_mean slow prices;
            macd_line = map (\<lambda>(f, s). f - s) (zip ema_fast ema_slow);
            signal_line = ewm_mean signal macd_line;
            histogram = map (\<lambda>(m, s). m - s) (zip macd_line signal_line)
        in (Some (last macd_line), Some (last signal_line), Some (last histogram)))"

definition calculate_bollinger_bands ::
  "real list \<Rightarrow> nat \<Rightarrow> real \<Rightarrow> real option \<times> real option \<times> real option" where
  "calculate_bollinger_bands prices period std_dev =
     (if length prices < period then (None, None, None)
      else
        let window = py_tail period prices;
            middle = np_mean window;
            std = pd_std window
        in (Some (middle + std * std_dev), Some middle, Some (middle - std * std_dev)))"

text \<open>\<open>calculate_moving_averages\<close> returns a dict with the keys \<open>sma_p\<close> and \<open>ema_p\<close> for
  each requested period \<open>p\<close> that the series covers; the model maps \<open>p\<close> to the pair of
  both values, and to \<open>None\<close> when the keys are absent.\<close>

definition calculate_moving_averages ::
  "real list \<Rightarrow> nat list \<Rightarrow> nat \<Rightarrow> (real \<times> real) option" where
  "calculate_moving_averages prices periods =
     (\<lambda>p. if p \<in> set periods \<and> p \<le> length prices
          then Some (np_mean (py_tail p prices), ewm_last p prices)
          else None)"

text \<open>\<open>np.log\<close> of a price that is not positive is \<open>-inf\<close> or NaN in the source.\<close>

definition calculate_volatility :: "real list \<Rightarrow> nat \<Rightarrow> real option" where
  "calculate_volatility prices period =
     (if length prices < period + 1 then None
      else Some (np_std (np_diff (map ln (py_tail (period + 1) prices))) * sqrt (365 * 24)))"

definition identify_support_resistance ::
  "real list \<Rightarrow> real list \<Rightarrow> nat \<Rightarrow> real option \<times> real option" where
  "identify_support_resistance highs lows lookback =
     (if length highs < lookback \<or> length lows < lookback then (None, None)
      else (Some (py_min (py_tail lookback lows)), Some (py_max (py_tail lookback highs))))"

text \<open>With a mean price of zero the source divides by zero in numpy: the strength is
  then 1.0 (from \<open>inf\<close>) when the slope is not zero and NaN when it is; NaN, which
  fails every comparison, stands as 0 here.\<close>

definition calculate_trend_strength :: "real list \<Rightarrow> nat \<Rightarrow> real" where
  "calculate_trend_strength prices period =
     (if length prices < period then 0
      else
        let recent_prices = py_tail period prices;
            slope = polyfit_slope recent_prices;
            avg_price = np_mean recent_prices
        in if avg_price = 0 then (if slope = 0 then 0 else 1)
           else min (\<bar>slope / avg_price\<bar> * 1000) 1)"

text \<open>With a mean volume of zero the ratio is \<open>inf\<close>, \<open>-inf\<close> or NaN in the source:
  \<open>inf\<close> is above 1.5, the other two fail both comparisons.\<close>

definition analyze_volume_profile :: "real list \<Rightarrow> nat \<Rightarrow> string" where
  "analyze_volume_profile volumes period =
     (if length volumes < period then ''UNKNOWN''
      else
        let avg_volume = np_mean (py_tail period volumes);
            current_volume = last volumes
        in if avg_volume = 0 then (if 0 < current_volume then ''HIGH'' else ''LOW'')
           else if 1.5 < current_volume / avg_volume then ''HIGH''
           else if 0.8 < current_volume / avg_volume then ''MEDIUM''
           else ''LOW'')"

section \<open>Signal generator (market_analysis_service.py)\<close>

text \<open>A row of the \<open>market_data\<close> table, with the columns the signal generator reads.\<close>

record market_data =
  close_price :: real
  high_price :: real
  low_price :: real
  volume :: real
  rsi_14 :: "real option"
  macd :: "real option"
  macd_signal :: "real option"
  sma_20 :: "real option"
  sma_50 :: "real option"

text \<open>A \<open>TradingSignal\<close>. The timestamps (\<open>created_at\<close>, \<open>expires_at\<close>) are left out.\<close>

record trading_signal =
  sig_id :: nat
  sig_pair_id :: nat
  signal_type :: string
  confidence :: real
  sig_entry_price :: real
  target_price :: real
  sig_stop_loss_price :: real
  sig_trend_strength :: real
  sig_volatility :: real
  sig_volume_profile :: string
  support_level :: "real option"
  resistance_level :: "real option"
  sig_strategy_type :: string
  position_size_recommendation :: real
  time_horizon_minutes :: nat

text \<open>\<open>_analyze_signals\<close> appends to the lists \<open>signals\<close> and \<open>weights\<close> in step; the
  model keeps one list of (signal, weight) pairs. \<open>if rsi:\<close> is Python truthiness: the
  value is neither \<open>None\<close> nor zero.\<close>

definition rsi_votes :: "market_data \<Rightarrow> (int \<times> real) list" where
  "rsi_votes latest_data =
     (case rsi_14 latest_data of
        None \<Rightarrow> []
      | Some rsi \<Rightarrow>
          if rsi = 0 then []
          else if rsi < 30 then [(1, 0.3)]
          else if 70 < rsi then [(- 1, 0.3)]
          else [(0, 0.1)])"

definition macd_votes :: "market_data \<Rightarrow> (int \<times> real) list" where
  "macd_votes latest_data =
     (case (macd latest_data, macd_signal latest_data) of
        (Some m, Some s) \<Rightarrow>
          if m = 0 \<or> s = 0 then []
          else if s < m then [(1, 0.25)]
          else [(- 1, 0.25)]
      | _ \<Rightarrow> [])"

definition sma_votes :: "market_data \<Rightarrow> (int \<times> real) list" where
  "sma_votes latest_data =
     (case (sma_20 latest_data, sma_50 latest_data) of
        (Some s20, Some s50) \<Rightarrow>
          if s20 = 0 \<or> s50 = 0 then []
          else if s50 < s20 \<and> s20 < close_price latest_data then [(1, 0.2)]
          else if s20 < s50 \<and> close_price latest_data < s20 then [(- 1, 0.2)]
          else [(0, 0.1)]
      | _ \<Rightarrow> [])"

text \<open>\<open>signals.append(1 if sum(signals) > 0 else -1); weights.append(w)\<close>\<close>

definition confirm_vote :: "(int \<times> real) list \<Rightarrow> real \<Rightarrow> (int \<times> real) list" where
  "confirm_vote votes w = votes @ [(if 0 < sum_list (map fst votes) then 1 else - 1, w)]"

definition collect_votes :: "market_data \<Rightarrow> real \<Rightarrow> string \<Rightarrow> (int \<times> real) list" where
  "collect_votes latest_data trend_strength volume_profile =
     (let v1 = rsi_votes latest_data @ macd_votes latest_data @ sma_votes latest_data;
          v2 = (if 0.7 < trend_strength then confirm_vote v1 0.15 else v1)
      in if volume_profile = ''HIGH'' then confirm_vote v2 0.1 else v2)"

text \<open>\<open>sum(s * w for s, w in zip(signals, weights)) / sum(weights)\<close>\<close>

definition weighted_signal :: "(int \<times> real) list \<Rightarrow> real" where
  "weighted_signal votes =
     sum_list (map (\<lambda>(s, w). of_int s * w) votes) / sum_list (map snd votes)"

definition classify_signal :: "real \<Rightarrow> string" where
  "classify_signal ws =
     (if 0.3 < ws then (if 0.6 < ws then ''STRONG_BUY'' else ''BUY'')
      else if ws < - 0.3 then (if ws < - 0.6 then ''STRONG_SELL'' else ''SELL'')
      else ''HOLD'')"

definition analyze_signals ::
  "market_data \<Rightarrow> real \<Rightarrow> real option \<Rightarrow> string \<Rightarrow> string \<times> real" where
  "analyze_signals latest_data trend_strength volatility volume_profile =
     (let votes = collect_votes latest_data trend_strength volume_profile
      in if votes = [] then (''HOLD'', 0)
         else (classify_signal (weighted_signal votes), min \<bar>weighted_signal votes\<bar> 1))"

text \<open>\<open>if resistance and resistance > entry_price\<close>: again truthiness first.\<close>

definition calculate_trade_levels ::
  "real \<Rightarrow> string \<Rightarrow> real \<Rightarrow> real option \<Rightarrow> real option \<Rightarrow> real \<times> real \<times> real" where
  "calculate_trade_levels current_price sig_type volatility support resistance =
     (let entry_price = current_price;
          vol_factor = max 0.005 (min (volatility / 100) 0.05)
      in if sig_type = ''BUY'' \<or> sig_type = ''STRONG_BUY'' then
           (entry_price,
            (case resistance of
               Some r \<Rightarrow>
                 if r \<noteq> 0 \<and> entry_price < r
                 then min (entry_price * (1 + vol_factor * 2)) (r * 0.99)
                 else entry_price * (1 + vol_factor * 2)
             | None \<Rightarrow> entry_price * (1 + vol_factor * 2)),
            entry_price * (1 - vol_factor))
         else
           (entry_price,
            (case support of
               Some sp \<Rightarrow>
                 if sp \<noteq> 0 \<and> sp < entry_price
                 then max (entry_price * (1 - vol_factor * 2)) (sp * 1.01)
                 else entry_price * (1 - vol_factor * 2)
             | None \<Rightarrow> entry_price * (1 - vol_factor * 2)),
            entry_price * (1 + vol_factor)))"

definition calculate_position_size :: "real \<Rightarrow> real \<Rightarrow> real" where
  "calculate_position_size conf volatility =
     min (2 * conf * max 0.5 (1 - volatility / 10)) 5"

text \<open>The votes that \<open>generate_trading_signal\<close> hands to \<open>_analyze_signals\<close>.\<close>

definition signal_votes :: "market_data list \<Rightarrow> (int \<times> real) list" where
  "signal_votes rows =
     collect_votes (hd rows)
       (calculate_trend_strength (map close_price (rev rows)) 20)
       (analyze_volume_profile (map volume (rev rows)) 20)"

text \<open>
  \<open>generate_trading_signal\<close>. The argument \<open>rows\<close> is the result of its query: the
  pair's rows that have an RSI, newest first, at most 50. \<open>new_id\<close> is the id of the
  signal created. With exactly 20 rows the volatility is \<open>None\<close> and
  \<open>_calculate_trade_levels\<close> raises a TypeError on \<open>volatility / 100\<close>, which the
  handler turns into \<open>None\<close>.
\<close>

definition generate_trading_signal ::
  "nat \<Rightarrow> nat \<Rightarrow> market_data list \<Rightarrow> trading_signal option" where
  "generate_trading_signal new_id pair rows =
     (if length rows < 20 then None
      else
        let latest = hd rows;
            prices = map close_price (rev rows);
            highs = map high_price (rev rows);
            lows = map low_price (rev rows);
            volumes = map volume (rev rows);
            trend_strength = calculate_trend_strength prices 20;
            volatility = calculate_volatility prices 20;
            volume_profile = analyze_volume_profile volumes 20;
            levels = identify_support_resistance highs lows 20;
            candidate = analyze_signals latest trend_strength volatility volume_profile
        in if fst candidate = ''HOLD'' \<or> snd candidate < 0.6 then None
           else
             (case volatility of
                None \<Rightarrow> None
              | Some vol \<Rightarrow>
                  let tl = calculate_trade_levels (close_price latest) (fst candidate) vol
                             (fst levels) (snd levels)
                  in Some \<lparr>sig_id = new_id, sig_pair_id = pair,
                            signal_type = fst candidate, confidence = snd candidate,
                            sig_entry_price = fst tl, target_price = fst (snd tl),
                            sig_stop_loss_price = snd (snd tl),
                            sig_trend_strength = trend_strength, sig_volatility = vol,
                            sig_volume_profile = volume_profile,
                            support_level = fst levels, resistance_level = snd levels,
                            sig_strategy_type = ''SCALP'',
                            position_size_recommendation =
                              calculate_position_size (snd candidate) vol,
                            time_horizon_minutes = 60\<rparr>))"

section \<open>Tables, exchange and service state\<close>

text \<open>Rows of the tables \<open>crypto_pairs\<close>, \<open>orders\<close>, \<open>positions\<close> and \<open>portfolio\<close>, with
  the columns the services read or write. String columns stay strings.\<close>

record crypto_pair =
  pair_id :: nat
  symbol :: string
  min_order_size :: real
  volume_precision :: int

record order =
  order_id :: nat
  kraken_order_id :: "string option"
  order_pair_id :: nat
  order_signal_id :: "nat option"
  order_type :: string
  order_side :: string
  order_amount :: real
  order_price :: "real option"
  order_status :: string
  filled_amount :: real
  average_price :: "real option"
  stop_loss_order_id :: "nat option"
  take_profit_order_id :: "nat option"
  fee :: "real option"

text \<open>\<open>entry_price\<close> is an option because \<open>_handle_entry_fill\<close> writes the exchange's
  average price to it, which \<open>_update_order_status\<close> leaves \<open>None\<close> when the exchange
  reports no price. \<open>opened_at\<close> is in seconds.\<close>

record position =
  position_id :: nat
  pos_pair_id :: nat
  entry_order_id :: nat
  pos_signal_id :: "nat option"
  side :: string
  amount :: real
  entry_price :: "real option"
  current_price :: "real option"
  unrealized_pnl :: real
  realized_pnl :: real
  stop_loss_price :: "real option"
  take_profit_price :: "real option"
  trailing_stop_distance :: "real option"
  is_open :: bool
  remaining_amount :: real
  strategy_type :: string
  max_unrealized_pnl :: real
  max_unrealized_loss :: real
  opened_at :: nat

record portfolio =
  total_balance_usd :: real
  available_balance_usd :: real
  total_pnl :: real
  daily_pnl :: real
  total_trades :: nat
  winning_trades :: nat
  losing_trades :: nat
  win_rate :: real
  average_win :: real
  average_loss :: real
  profit_factor :: real
  current_drawdown :: real
  open_positions_count :: nat
  total_exposure_usd :: real
  max_position_size_pct :: real
  max_daily_loss_pct :: real
  is_trading_enabled :: bool

text \<open>An entry of the in-memory dict \<open>active_bracket_orders\<close>.\<close>

record bracket_info =
  bi_position_id :: nat
  bi_entry_order_id :: nat
  bi_signal_id :: nat
  bi_stop_loss_price :: real
  bi_take_profit_price :: real
  bi_side :: string
  bi_amount :: real

text \<open>
  The exchange client \<open>kraken_service\<close> is outside the model. A call is recorded as a
  request: \<open>AddOrder pair type ordertype volume price\<close> or \<open>CancelOrder txid\<close>. Its reply
  is \<open>KrakenError\<close> when the client raises (transport error, rejection) and
  \<open>KrakenResult txid\<close> otherwise, where \<open>txid\<close> is \<open>result['txid'][0]\<close> when the result
  has one. The state holds the exchange's replies by call number and the log of the
  requests made so far.
\<close>

datatype kraken_request =
  AddOrder string string string real "real option"
| CancelOrder string

datatype kraken_reply = KrakenError | KrakenResult "string option"

record state =
  crypto_pairs :: "crypto_pair list"
  orders :: "order list"
  positions :: "position list"
  portfolio :: "portfolio option"
  active_bracket_orders :: "nat \<rightharpoonup> bracket_info"
  next_id :: nat
  clock :: nat
  kraken :: "nat \<Rightarrow> kraken_reply"
  kraken_log :: "kraken_request list"

definition kraken_call :: "kraken_request \<Rightarrow> state \<Rightarrow> kraken_reply \<times> state" where
  "kraken_call request st =
     (kraken st (length (kraken_log st)), st\<lparr>kraken_log := kraken_log st @ [request]\<rparr>)"

text \<open>\<open>SELECT ... WHERE id = k\<close> followed by \<open>[0]\<close> is \<open>find\<close>: \<open>None\<close> stands for the
  IndexError on an empty result. \<open>UPDATE ... WHERE id = k\<close> maps over the table.\<close>

definition update_order :: "nat \<Rightarrow> (order \<Rightarrow> order) \<Rightarrow> state \<Rightarrow> state" where
  "update_order k f st =
     st\<lparr>orders := map (\<lambda>ord. if order_id ord = k then f ord else ord) (orders st)\<rparr>"

definition update_position :: "nat \<Rightarrow> (position \<Rightarrow> position) \<Rightarrow> state \<Rightarrow> state" where
  "update_position k f st =
     st\<lparr>positions := map (\<lambda>pos. if position_id pos = k then f pos else pos) (positions st)\<rparr>"

section \<open>Bracket order manager (order_management_service.py)\<close>

text \<open>\<open>_place_order\<close>. Every order type but \<open>market\<close> goes to the exchange as a limit
  order; the order row keeps the type it was asked for.\<close>

definition place_order ::
  "state \<Rightarrow> nat \<Rightarrow> nat option \<Rightarrow> string \<Rightarrow> string \<Rightarrow> real \<Rightarrow> real option \<Rightarrow> order option \<times> state" where
  "place_order st pair signal ord_type ord_side amt price =
     (case find (\<lambda>cp. pair_id cp = pair) (crypto_pairs st) of
        None \<Rightarrow> (None, st)
      | Some pair_data \<Rightarrow>
          let request =
                (if ord_type = ''market''
                 then AddOrder (symbol pair_data) ord_side ''market'' amt None
                 else AddOrder (symbol pair_data) ord_side ''limit'' amt price);
              called = kraken_call request st
          in case fst called of
               KrakenError \<Rightarrow> (None, snd called)
             | KrakenResult txid \<Rightarrow>
                 let new_order =
                       \<lparr>order_id = next_id (snd called), kraken_order_id = txid,
                        order_pair_id = pair, order_signal_id = signal,
                        order_type = ord_type, order_side = ord_side,
                        order_amount = amt, order_price = price,
                        order_status = ''open'', filled_amount = 0,
                        average_price = None, stop_loss_order_id = None,
                        take_profit_order_id = None, fee = None\<rparr>
                 in (Some new_order,
                     (snd called)\<lparr>orders := orders (snd called) @ [new_order],
                                   next_id := Suc (next_id (snd called))\<rparr>))"

text \<open>\<open>create_bracket_order\<close>. A missing pair, a zero entry price (ZeroDivisionError) and
  an amount below the pair's minimum all raise, and the handler returns \<open>None\<close>.\<close>

definition create_bracket_order ::
  "state \<Rightarrow> trading_signal \<Rightarrow> real \<Rightarrow> position option \<times> state" where
  "create_bracket_order st signal position_size_usd =
     (case find (\<lambda>cp. pair_id cp = sig_pair_id signal) (crypto_pairs st) of
        None \<Rightarrow> (None, st)
      | Some pair \<Rightarrow>
          if sig_entry_price signal = 0 then (None, st)
          else
            let amt = py_round (position_size_usd / sig_entry_price signal)
                        (volume_precision pair)
            in if amt < min_order_size pair then (None, st)
               else
                 let ord_side = (if signal_type signal = ''BUY'' \<or>
                                    signal_type signal = ''STRONG_BUY''
                                 then ''buy'' else ''sell'');
                     placed = place_order st (sig_pair_id signal) (Some (sig_id signal))
                                ''limit'' ord_side amt (Some (sig_entry_price signal))
                 in case fst placed of
                      None \<Rightarrow> (None, snd placed)
                    | Some entry_order \<Rightarrow>
                        let st1 = snd placed;
                            new_position =
                              \<lparr>position_id = next_id st1,
                               pos_pair_id = sig_pair_id signal,
                               entry_order_id = order_id entry_order,
                               pos_signal_id = Some (sig_id signal),
                               side = (if ord_side = ''buy'' then ''long'' else ''short''),
                               amount = amt,
                               entry_price = Some (sig_entry_price signal),
                               current_price = None,
                               unrealized_pnl = 0, realized_pnl = 0,
                               stop_loss_price = Some (sig_stop_loss_price signal),
                               take_profit_price = Some (target_price signal),
                               trailing_stop_distance = None,
                               is_open = True, remaining_amount = amt,
                               strategy_type = sig_strategy_type signal,
                               max_unrealized_pnl = 0, max_unrealized_loss = 0,
                               opened_at = clock st1\<rparr>
                        in (Some new_position,
                            st1\<lparr>positions := positions st1 @ [new_position],
                                next_id := Suc (next_id st1),
                                active_bracket_orders :=
                                  (active_bracket_orders st1)(order_id entry_order \<mapsto>
                                    \<lparr>bi_position_id = next_id st1,
                                     bi_entry_order_id = order_id entry_order,
                                     bi_signal_id = sig_id signal,
                                     bi_stop_loss_price = sig_stop_loss_price signal,
                                     bi_take_profit_price = target_price signal,
                                     bi_side = ord_side, bi_amount = amt\<rparr>)\<rparr>))"

text \<open>\<open>_handle_entry_fill\<close>. Without an entry in \<open>active_bracket_orders\<close> the first line
  raises a KeyError and the handler leaves everything as it is.\<close>

definition handle_entry_fill :: "state \<Rightarrow> order \<Rightarrow> real \<Rightarrow> real option \<Rightarrow> state" where
  "handle_entry_fill st entry_order filled average =
     (case active_bracket_orders st (order_id entry_order) of
        None \<Rightarrow> st
      | Some bracket \<Rightarrow>
          let st1 = update_position (bi_position_id bracket)
                      (\<lambda>pos. pos\<lparr>entry_price := average, current_price := average,
                                  remaining_amount := filled\<rparr>) st;
              child_side = (if bi_side bracket = ''buy'' then ''sell'' else ''buy'');
              stop_loss = place_order st1 (order_pair_id entry_order)
                            (Some (bi_signal_id bracket)) ''stop-loss'' child_side filled
                            (Some (bi_stop_loss_price bracket));
              take_profit = place_order (snd stop_loss) (order_pair_id entry_order)
                              (Some (bi_signal_id bracket)) ''limit'' child_side filled
                              (Some (bi_take_profit_price bracket));
              st3 = snd take_profit;
              st4 = (case (fst stop_loss, fst take_profit) of
                       (Some sl, Some tp) \<Rightarrow>
                         update_order (order_id entry_order)
                           (\<lambda>ord. ord\<lparr>stop_loss_order_id := Some (order_id sl),
                                       take_profit_order_id := Some (order_id tp)\<rparr>) st3
                     | _ \<Rightarrow> st3)
          in st4\<lparr>active_bracket_orders :=
                   (active_bracket_orders st4)(order_id entry_order := None)\<rparr>)"

text \<open>What the exchange reports for one order (\<open>QueryOrders\<close>): \<open>ko_price\<close> is \<open>None\<close>
  when the report has no price.\<close>

record kraken_order =
  ko_status :: string
  vol_exec :: real
  ko_price :: "real option"
  ko_fee :: real

record order_update =
  upd_order_id :: nat
  old_status :: string
  new_status :: string
  upd_filled_amount :: real
  upd_average_price :: "real option"

definition update_order_status ::
  "state \<Rightarrow> order \<Rightarrow> kraken_order \<Rightarrow> order_update option \<times> state" where
  "update_order_status st ord reported =
     (let status = (if ko_status reported = ''closed'' then ''closed'' else ''open'');
          st1 = update_order (order_id ord)
                  (\<lambda>row. row\<lparr>order_status := status, filled_amount := vol_exec reported,
                              average_price := ko_price reported,
                              fee := Some (ko_fee reported)\<rparr>) st;
          upd = \<lparr>upd_order_id = order_id ord, old_status = order_status ord,
                 new_status = status, upd_filled_amount = vol_exec reported,
                 upd_average_price = ko_price reported\<rparr>
      in if ko_status reported = ''closed'' \<and> active_bracket_orders st1 (order_id ord) \<noteq> None
         then (Some upd, handle_entry_fill st1 ord (vol_exec reported) (ko_price reported))
         else (Some upd, st1))"

text \<open>The query of \<open>monitor_orders\<close>: the orders that the next reconciliation asks the
  exchange about.\<close>

definition open_orders_query :: "state \<Rightarrow> order list" where
  "open_orders_query st =
     filter (\<lambda>ord. order_status ord = ''open'' \<and> kraken_order_id ord \<noteq> None) (orders st)"



text \<open>\<open>if order['kraken_order_id']: kraken_service.cancel_order(...)\<close>: no call for
  \<open>None\<close> or an empty id.\<close>

definition cancel_if_known :: "string option \<Rightarrow> state \<Rightarrow> kraken_reply \<times> state" where
  "cancel_if_known kid st =
     (case kid of
        None \<Rightarrow> (KrakenResult None, st)
      | Some k \<Rightarrow> if k = [] then (KrakenResult None, st) else kraken_call (CancelOrder k) st)"


text \<open>\<open>_cancel_position_orders\<close>: one \<open>try\<close> around the loop over the two references, so
  a failure at the first one skips the second. \<open>cancel_reference\<close> is one round of the
  loop and returns \<open>False\<close> when it raises.\<close>

definition cancel_reference :: "nat option \<Rightarrow> state \<Rightarrow> bool \<times> state" where
  "cancel_reference ref st =
     (case ref of
        None \<Rightarrow> (True, st)
      | Some k \<Rightarrow>
          (case find (\<lambda>ord. order_id ord = k) (orders st) of
             None \<Rightarrow> (False, st)
           | Some order_data \<Rightarrow>
               let cancelled = cancel_if_known (kraken_order_id order_data) st
               in case fst cancelled of
                    KrakenError \<Rightarrow> (False, snd cancelled)
                  | KrakenResult _ \<Rightarrow> (True, snd cancelled)))"

definition cancel_position_orders :: "state \<Rightarrow> nat \<Rightarrow> state" where
  "cancel_position_orders st pid =
     (case find (\<lambda>pos. position_id pos = pid) (positions st) of
        None \<Rightarrow> st
      | Some position_data \<Rightarrow>
          (case find (\<lambda>ord. order_id ord = entry_order_id position_data) (orders st) of
             None \<Rightarrow> st
           | Some entry_order \<Rightarrow>
               let first = cancel_reference (stop_loss_order_id entry_order) st
               in if fst first
                  then snd (cancel_reference (take_profit_order_id entry_order) (snd first))
                  else snd first))"

definition close_position :: "state \<Rightarrow> nat \<Rightarrow> bool \<times> state" where
  "close_position st pid =
     (case find (\<lambda>pos. position_id pos = pid \<and> is_open pos) (positions st) of
        None \<Rightarrow> (False, st)
      | Some pos \<Rightarrow>
          let st1 = cancel_position_orders st pid;
              close_order = place_order st1 (pos_pair_id pos) (pos_signal_id pos) ''market''
                              (if side pos = ''long'' then ''sell'' else ''buy'')
                              (remaining_amount pos) None
          in case fst close_order of
               Some _ \<Rightarrow> (True, update_position pid (\<lambda>row. row\<lparr>is_open := False\<rparr>)
                                   (snd close_order))
             | None \<Rightarrow> (False, snd close_order))"

section \<open>Trailing stop (trading_bot_service.py)\<close>



section \<open>Portfolio accountant and risk gate (portfolio_service.py)\<close>

text \<open>The \<open>portfolio\<close> table has the one row that \<open>_initialize_portfolio\<close> finds or
  creates; \<open>portfolio st = None\<close> is the empty table, on which every \<open>[0]\<close> raises.\<close>

record metrics =
  m_total_balance_usd :: real
  m_available_balance_usd :: real
  m_total_pnl :: real
  m_realized_pnl :: real
  m_unrealized_pnl :: real
  m_daily_pnl :: real
  m_total_trades :: nat
  m_open_positions_count :: nat
  m_winning_trades :: nat
  m_losing_trades :: nat
  m_win_rate :: real
  m_average_win :: real
  m_average_loss :: real
  m_profit_factor :: real
  m_current_drawdown :: real
  m_total_exposure_usd :: real

text \<open>\<open>datetime.date()\<close> of a time in seconds.\<close>

definition date_of :: "nat \<Rightarrow> nat" where
  "date_of t = t div 86400"

text \<open>\<open>if position['current_price']:\<close> holds for a price that is neither \<open>None\<close> nor 0.\<close>

definition has_price :: "position \<Rightarrow> bool" where
  "has_price pos = (case current_price pos of None \<Rightarrow> False | Some c \<Rightarrow> c \<noteq> 0)"

text \<open>The profit of one open position that has a price; \<open>None\<close> is the TypeError on an
  entry price of \<open>None\<close>.\<close>

definition position_pnl :: "position \<Rightarrow> real option" where
  "position_pnl pos =
     (case (current_price pos, entry_price pos) of
        (Some c, Some e) \<Rightarrow>
          Some (if side pos = ''long'' then (c - e) * remaining_amount pos
                else (e - c) * remaining_amount pos)
      | _ \<Rightarrow> None)"

definition position_exposure :: "position \<Rightarrow> real" where
  "position_exposure pos =
     (case current_price pos of None \<Rightarrow> 0 | Some c \<Rightarrow> c * remaining_amount pos)"

definition compute_metrics :: "portfolio \<Rightarrow> position list \<Rightarrow> nat \<Rightarrow> metrics option" where
  "compute_metrics portfolio_data all_positions today =
     (let open_positions = filter is_open all_positions;
          closed_positions = filter (\<lambda>pos. \<not> is_open pos) all_positions;
          priced = filter has_price open_positions
      in if list_ex (\<lambda>pos. position_pnl pos = None) priced then None
         else
           let total_realized_pnl = sum_list (map realized_pnl closed_positions);
               total_unrealized_pnl = sum_list (map (\<lambda>pos. the (position_pnl pos)) priced);
               winning_pnls = filter (\<lambda>x. 0 < x) (map realized_pnl closed_positions);
               losing_pnls = filter (\<lambda>x. x < 0) (map realized_pnl closed_positions);
               total_wins = sum_list winning_pnls;
               total_losses = \<bar>sum_list losing_pnls\<bar>;
               total = total_realized_pnl + total_unrealized_pnl;
               max_pnl = py_max (map max_unrealized_pnl all_positions @ [0])
           in Some
                \<lparr>m_total_balance_usd = total_balance_usd portfolio_data,
                 m_available_balance_usd = available_balance_usd portfolio_data,
                 m_total_pnl = total,
                 m_realized_pnl = total_realized_pnl,
                 m_unrealized_pnl = total_unrealized_pnl,
                 m_daily_pnl =
                   sum_list (map realized_pnl
                     (filter (\<lambda>pos. \<not> is_open pos)
                        (filter (\<lambda>pos. date_of (opened_at pos) = today) all_positions))),
                 m_total_trades = length all_positions,
                 m_open_positions_count = length open_positions,
                 m_winning_trades = length winning_pnls,
                 m_losing_trades = length losing_pnls,
                 m_win_rate =
                   (if closed_positions = [] then 0
                    else real (length winning_pnls) / real (length closed_positions) * 100),
                 m_average_win =
                   (if winning_pnls = [] then 0
                    else sum_list winning_pnls / real (length winning_pnls)),
                 m_average_loss =
                   (if losing_pnls = [] then 0
                    else sum_list losing_pnls / real (length losing_pnls)),
                 m_profit_factor = (if 0 < total_losses then total_wins / total_losses else 0),
                 m_current_drawdown = (if 0 < max_pnl then max 0 (max_pnl - total) else 0),
                 m_total_exposure_usd = sum_list (map position_exposure priced)\<rparr>)"

text \<open>\<open>_update_portfolio_metrics\<close>: the columns written back.\<close>

definition update_portfolio_metrics :: "metrics \<Rightarrow> portfolio \<Rightarrow> portfolio" where
  "update_portfolio_metrics m row =
     row\<lparr>total_pnl := m_total_pnl m, daily_pnl := m_daily_pnl m,
         total_trades := m_total_trades m, winning_trades := m_winning_trades m,
         losing_trades := m_losing_trades m, win_rate := m_win_rate m,
         average_win := m_average_win m, average_loss := m_average_loss m,
         profit_factor := m_profit_factor m, current_drawdown := m_current_drawdown m,
         open_positions_count := m_open_positions_count m,
         total_exposure_usd := m_total_exposure_usd m\<rparr>"

text \<open>\<open>calculate_portfolio_metrics\<close>: \<open>None\<close> is the empty dict of the handler. The
  query's \<open>ORDER BY opened_at DESC\<close> is dropped: sums, counts and the maximum over reals
  do not depend on the order of the rows.\<close>

definition calculate_portfolio_metrics :: "state \<Rightarrow> metrics option \<times> state" where
  "calculate_portfolio_metrics st =
     (case portfolio st of
        None \<Rightarrow> (None, st)
      | Some portfolio_data \<Rightarrow>
          (case compute_metrics portfolio_data (positions st) (date_of (clock st)) of
             None \<Rightarrow> (None, st)
           | Some m \<Rightarrow>
               (Some m, st\<lparr>portfolio := Some (update_portfolio_metrics m portfolio_data)\<rparr>)))"


record alert =
  alert_type :: string
  severity :: string
  alert_position_id :: "nat option"

record risk_report =
  alerts :: "alert list"
  risk_status :: string

definition position_alerts :: "portfolio \<Rightarrow> position list \<Rightarrow> alert list" where
  "position_alerts portfolio_data open_positions =
     map (\<lambda>pos. \<lparr>alert_type = ''POSITION_SIZE_LIMIT'', severity = ''MEDIUM'',
                  alert_position_id = Some (position_id pos)\<rparr>)
       (filter (\<lambda>pos. has_price pos \<and>
                  max_position_size_pct portfolio_data <
                    position_exposure pos / total_balance_usd portfolio_data * 100)
          open_positions)"

text \<open>
  \<open>check_risk_limits\<close>. The total exposure is divided by \<open>total_balance_usd\<close> on every
  run (and so is each priced position's value before it), so a balance of zero always
  ends in a ZeroDivisionError and in the handler's report; so does an empty portfolio
  table.
\<close>

definition check_risk_limits :: "state \<Rightarrow> risk_report" where
  "check_risk_limits st =
     (case portfolio st of
        None \<Rightarrow> \<lparr>alerts = [], risk_status = ''UNKNOWN''\<rparr>
      | Some portfolio_data \<Rightarrow>
          if total_balance_usd portfolio_data = 0
          then \<lparr>alerts = [], risk_status = ''UNKNOWN''\<rparr>
          else
            let daily_loss_limit =
                  total_balance_usd portfolio_data * (max_daily_loss_pct portfolio_data / 100);
                found =
                  (if daily_pnl portfolio_data < - daily_loss_limit
                   then [\<lparr>alert_type = ''DAILY_LOSS_LIMIT'', severity = ''HIGH'',
                          alert_position_id = None\<rparr>]
                   else [])
                  @ position_alerts portfolio_data (filter is_open (positions st))
                  @ (if 50 < total_exposure_usd portfolio_data /
                               total_balance_usd portfolio_data * 100
                     then [\<lparr>alert_type = ''TOTAL_EXPOSURE_LIMIT'', severity = ''HIGH'',
                            alert_position_id = None\<rparr>]
                     else [])
            in \<lparr>alerts = found,
                risk_status =
                  (if list_ex (\<lambda>a. severity a = ''HIGH'') found then ''HIGH''
                   else if found \<noteq> [] then ''MEDIUM'' else ''LOW'')\<rparr>)"

section \<open>Cycle scheduler: signal execution (trading_bot_service.py)\<close>

text \<open>The loop of \<open>execute_trading_signals\<close> over the signals it selected.\<close>

fun execute_signals ::
  "portfolio \<Rightarrow> trading_signal list \<Rightarrow> state \<Rightarrow> position list \<times> state" where
  "execute_signals portfolio_data [] st = ([], st)"
| "execute_signals portfolio_data (signal # rest) st =
     (let position_size_usd =
            available_balance_usd portfolio_data *
              (position_size_recommendation signal / 100)
      in if position_size_usd < 50 then execute_signals portfolio_data rest st
         else
           let created = create_bracket_order st signal position_size_usd;
               later = execute_signals portfolio_data rest (snd created)
           in ((case fst created of None \<Rightarrow> [] | Some pos \<Rightarrow> [pos]) @ fst later,
               snd later))"

text \<open>\<open>signals.sort(key=lambda x: x.confidence, reverse=True)\<close> is stable: signals of
  equal confidence keep their order, as they do under a stable sort by the negated
  key.\<close>

definition execute_trading_signals ::
  "state \<Rightarrow> trading_signal list \<Rightarrow> position list \<times> state" where
  "execute_trading_signals st signals =
     (case portfolio st of
        None \<Rightarrow> ([], st)
      | Some portfolio_data \<Rightarrow>
          if \<not> is_trading_enabled portfolio_data then ([], st)
          else if risk_status (check_risk_limits st) = ''HIGH'' then ([], st)
          else execute_signals portfolio_data
                 (take 3 (sort_key (\<lambda>sg. - confidence sg) signals)) st)"

section \<open>Cycle scheduler: monitoring (trading_bot_service.py)\<close>




section \<open>Runs of the bot\<close>







section \<open>Example data\<close>

text \<open>Twenty-one identical rows: a flat market with a low RSI, a MACD above its signal
  line and the price above both moving averages.\<close>

definition bull_row :: market_data where
  "bull_row = \<lparr>close_price = 100, high_price = 101, low_price = 99, volume = 10,
     rsi_14 = Some 20, macd = Some 1, macd_signal = Some (1 / 2),
     sma_20 = Some 99, sma_50 = Some 98\<rparr>"

definition bull_rows :: "market_data list" where
  "bull_rows = [bull_row, bull_row, bull_row, bull_row, bull_row, bull_row, bull_row,
     bull_row, bull_row, bull_row, bull_row, bull_row, bull_row, bull_row,
     bull_row, bull_row, bull_row, bull_row, bull_row, bull_row, bull_row]"

text \<open>A state with one pair, an empty ledger, a funded portfolio and an exchange that
  accepts every request.\<close>

definition example_pair :: crypto_pair where
  "example_pair = \<lparr>pair_id = 1, symbol = ''XBTUSD'', min_order_size = 1 / 1000,
     volume_precision = 2\<rparr>"

definition example_portfolio :: portfolio where
  "example_portfolio = \<lparr>total_balance_usd = 10000, available_balance_usd = 10000,
     total_pnl = 0, daily_pnl = 0, total_trades = 0, winning_trades = 0, losing_trades = 0,
     win_rate = 0, average_win = 0, average_loss = 0, profit_factor = 0,
     current_drawdown = 0, open_positions_count = 0, total_exposure_usd = 0,
     max_position_size_pct = 5, max_daily_loss_pct = 2, is_trading_enabled = True\<rparr>"

definition example_state :: state where
  "example_state = \<lparr>crypto_pairs = [example_pair], orders = [], positions = [],
     portfolio = Some example_portfolio, active_bracket_orders = Map.empty,
     next_id = 100, clock = 0, kraken = (\<lambda>n. KrakenResult (Some ''TX'')),
     kraken_log = []\<rparr>"

definition example_signal :: trading_signal where
  "example_signal = \<lparr>sig_id = 7, sig_pair_id = 1, signal_type = ''STRONG_BUY'',
     confidence = 1, sig_entry_price = 100, target_price = 104,
     sig_stop_loss_price = 98, sig_trend_strength = 0, sig_volatility = 0,
     sig_volume_profile = ''MEDIUM'', support_level = None, resistance_level = None,
     sig_strategy_type = ''SCALP'', position_size_recommendation = 2,
     time_horizon_minutes = 60\<rparr>"

text \<open>The same state after a losing day on an account whose balance reads zero.\<close>

definition zero_balance_state :: state where
  "zero_balance_state =
     example_state\<lparr>portfolio :=
       Some (example_portfolio\<lparr>total_balance_usd := 0, daily_pnl := - 10\<rparr>)\<rparr>"

text \<open>The same state after a day that lost 300 of a balance of 10000.\<close>

definition losing_state :: state where
  "losing_state =
     example_state\<lparr>portfolio := Some (example_portfolio\<lparr>daily_pnl := - 300\<rparr>)\<rparr>"

text \<open>The zero-balance state with a balance of 400 instead: the same loss of 10 is above
  2 percent of it.\<close>

definition small_balance_state :: state where
  "small_balance_state =
     example_state\<lparr>portfolio :=
       Some (example_portfolio\<lparr>total_balance_usd := 400, daily_pnl := - 10\<rparr>)\<rparr>"

text \<open>A ledger with one open long position and one closed losing trade.\<close>

definition example_long :: position where
  "example_long = \<lparr>position_id = 11, pos_pair_id = 1, entry_order_id = 10,
     pos_signal_id = Some 7, side = ''long'', amount = 2, entry_price = Some 100,
     current_price = Some 103, unrealized_pnl = 6, realized_pnl = 0,
     stop_loss_price = Some 98, take_profit_price = Some 104,
     trailing_stop_distance = Some 2, is_open = True, remaining_amount = 2,
     strategy_type = ''SCALP'', max_unrealized_pnl = 8, max_unrealized_loss = 0,
     opened_at = 3600\<rparr>"

definition example_closed :: position where
  "example_closed = example_long\<lparr>position_id := 21, entry_order_id := 20,
     is_open := False, realized_pnl := - 5, max_unrealized_pnl := 1\<rparr>"

definition ledger_state :: state where
  "ledger_state = example_state\<lparr>positions := [example_long, example_closed]\<rparr>"

text \<open>The example state with an exchange that refuses every request.\<close>

definition rejecting_state :: state where
  "rejecting_state = example_state\<lparr>kraken := (\<lambda>n. KrakenError)\<rparr>"

text \<open>A protected long position: its filled entry order refers to a stop-loss and a
  take-profit order, both live at the exchange. The exchange accepts the next two
  requests and refuses the third.\<close>

definition example_entry_order :: order where
  "example_entry_order = \<lparr>order_id = 10, kraken_order_id = Some ''EN1'', order_pair_id = 1,
     order_signal_id = Some 7, order_type = ''limit'', order_side = ''buy'',
     order_amount = 2, order_price = Some 100, order_status = ''closed'',
     filled_amount = 2, average_price = Some 100, stop_loss_order_id = Some 12,
     take_profit_order_id = Some 13, fee = Some 0\<rparr>"

definition example_stop_order :: order where
  "example_stop_order = \<lparr>order_id = 12, kraken_order_id = Some ''SL1'', order_pair_id = 1,
     order_signal_id = Some 7, order_type = ''stop-loss'', order_side = ''sell'',
     order_amount = 2, order_price = Some 98, order_status = ''open'',
     filled_amount = 0, average_price = None, stop_loss_order_id = None,
     take_profit_order_id = None, fee = None\<rparr>"

definition example_target_order :: order where
  "example_target_order = \<lparr>order_id = 13, kraken_order_id = Some ''TP1'', order_pair_id = 1,
     order_signal_id = Some 7, order_type = ''limit'', order_side = ''sell'',
     order_amount = 2, order_price = Some 104, order_status = ''open'',
     filled_amount = 0, average_price = None, stop_loss_order_id = None,
     take_profit_order_id = None, fee = None\<rparr>"

definition protected_state :: state where
  "protected_state = example_state\<lparr>
     orders := [example_entry_order, example_stop_order, example_target_order],
     positions := [example_long],
     kraken := (\<lambda>n. if n = 2 then KrakenError else KrakenResult (Some ''TX''))\<rparr>"

text \<open>An entry order of 2 units at 100 that is open at the exchange, its position and its
  bracket correlation, as \<open>create_bracket_order\<close> leaves them; the exchange refuses the
  next request and accepts the ones after it. And the exchange's report that the entry
  order was filled in full at 100.5.\<close>

definition pending_entry_order :: order where
  "pending_entry_order = example_entry_order\<lparr>order_status := ''open'', filled_amount := 0,
     average_price := None, stop_loss_order_id := None, take_profit_order_id := None,
     fee := None\<rparr>"

definition pending_position :: position where
  "pending_position = example_long\<lparr>current_price := None, unrealized_pnl := 0,
     max_unrealized_pnl := 0, trailing_stop_distance := None\<rparr>"

definition pending_bracket :: bracket_info where
  "pending_bracket = \<lparr>bi_position_id = 11, bi_entry_order_id = 10, bi_signal_id = 7,
     bi_stop_loss_price = 98, bi_take_profit_price = 104, bi_side = ''buy'',
     bi_amount = 2\<rparr>"

definition pending_state :: state where
  "pending_state = example_state\<lparr>orders := [pending_entry_order],
     positions := [pending_position],
     active_bracket_orders := [10 \<mapsto> pending_bracket],
     kraken := (\<lambda>n. if n = 0 then KrakenError else KrakenResult (Some ''TX''))\<rparr>"

definition filled_report :: kraken_order where
  "filled_report = \<lparr>ko_status = ''closed'', vol_exec = 2, ko_price = Some (201 / 2),
     ko_fee = 0\<rparr>"

definition after_fill :: state where
  "after_fill = snd (update_order_status pending_state pending_entry_order filled_report)"



section \<open>Properties of the indicator engine\<close>

lemma length_np_diff: "length (np_diff xs) = length xs - 1"
  by (simp add: np_diff_def)

lemma length_py_tail: "0 < n \<Longrightarrow> n \<le> length xs \<Longrightarrow> length (py_tail n xs) = n"
proof -
  assume a: "0 < n" "n \<le> length xs"
  then have "py_tail n xs = drop (length xs - n) xs" by (simp add: py_tail_def)
  then have "length (py_tail n xs) = length xs - (length xs - n)" by (simp only: length_drop)
  with a show ?thesis by arith
qed

lemma set_py_tail: "set (py_tail n xs) \<subseteq> set xs"
  by (auto simp: py_tail_def dest: in_set_dropD)

lemma np_mean_nonneg: "(\<And>x. x \<in> set xs \<Longrightarrow> 0 \<le> x) \<Longrightarrow> 0 \<le> np_mean xs"
  by (simp add: np_mean_def sum_list_nonneg)

lemma rsi_avg_gain_nonneg: "0 \<le> rsi_avg_gain prices period"
  unfolding rsi_avg_gain_def
proof (rule np_mean_nonneg)
  fix x assume "x \<in> set (py_tail period (rsi_gains prices))"
  then have "x \<in> set (rsi_gains prices)" by (rule subsetD [OF set_py_tail])
  then obtain d where "x = (if 0 < d then d else 0)"
    unfolding rsi_gains_def set_map by (rule imageE)
  then show "0 \<le> x" by simp
qed

lemma rsi_avg_loss_nonneg: "0 \<le> rsi_avg_loss prices period"
  unfolding rsi_avg_loss_def
proof (rule np_mean_nonneg)
  fix x assume "x \<in> set (py_tail period (rsi_losses prices))"
  then have "x \<in> set (rsi_losses prices)" by (rule subsetD [OF set_py_tail])
  then obtain d where "x = (if d < 0 then - d else 0)"
    unfolding rsi_losses_def set_map by (rule imageE)
  then show "0 \<le> x" by simp
qed

lemma rsi_formula_range:
  fixes g l :: real
  assumes "0 \<le> g" and "0 < l"
  shows "0 \<le> 100 - 100 / (1 + g / l) \<and> 100 - 100 / (1 + g / l) \<le> 100"
proof -
  have q: "0 \<le> g / l" using assms by simp
  define d where "d = 1 + g / l"
  have ge: "1 \<le> d" using q by (simp add: d_def)
  then have pos: "0 < d" by linarith
  have "100 * 1 \<le> 100 * d" using ge by (intro mult_left_mono) simp_all
  then have "100 / d \<le> 100"
    using pos by (simp only: pos_divide_le_eq mult_1_right)
  moreover have "0 \<le> 100 / d"
    using pos by (intro divide_nonneg_pos) simp_all
  ultimately show ?thesis unfolding d_def by linarith
qed

text \<open>
  C8. With a positive period and at least \<open>period + 1\<close> samples (15 for the default
  period 14), \<open>calculate_rsi\<close> returns a number between 0 and 100, and exactly 100 when
  the average loss over the trailing window is zero; with fewer samples it returns
  \<open>None\<close>. The trailing window then holds exactly \<open>period\<close> price changes.
\<close>

theorem calculate_rsi_range:
  assumes "0 < period"
  shows "if length prices < period + 1 then calculate_rsi prices period = None
         else length (py_tail period (rsi_losses prices)) = period \<and>
              (\<exists>r. calculate_rsi prices period = Some r \<and> 0 \<le> r \<and> r \<le> 100) \<and>
              (rsi_avg_loss prices period = 0 \<longrightarrow> calculate_rsi prices period = Some 100)"
proof (cases "length prices < period + 1")
  case True
  then show ?thesis by (simp add: calculate_rsi_def)
next
  case False
  then have len: "period + 1 \<le> length prices" by simp
  have "period \<le> length (rsi_losses prices)"
    using len by (simp add: rsi_losses_def length_np_diff)
  then have win: "length (py_tail period (rsi_losses prices)) = period"
    using assms by (rule length_py_tail [rotated])
  have rng: "\<exists>r. calculate_rsi prices period = Some r \<and> 0 \<le> r \<and> r \<le> 100"
  proof (cases "rsi_avg_loss prices period = 0")
    case True
    then have "calculate_rsi prices period = Some 100"
      using len by (simp add: calculate_rsi_def)
    then show ?thesis by simp
  next
    case nz: False
    then have pos: "0 < rsi_avg_loss prices period"
      using rsi_avg_loss_nonneg [of prices period] by simp
    have "calculate_rsi prices period =
            Some (100 - 100 / (1 + rsi_avg_gain prices period / rsi_avg_loss prices period))"
      using len nz by (simp add: calculate_rsi_def)
    then show ?thesis
      using rsi_formula_range [OF rsi_avg_gain_nonneg pos, of prices period] by blast
  qed
  have hundred: "rsi_avg_loss prices period = 0 \<longrightarrow> calculate_rsi prices period = Some 100"
    using len by (simp add: calculate_rsi_def)
  show ?thesis
    unfolding if_not_P [OF False] using win rng hundred by (intro conjI)
qed

theorem calculate_rsi_range_witness:
  "calculate_rsi [1, 2, 3, 4, 5, 6, 7, 8, 9, 10, 11, 12, 13, 14, 15] 14 = Some 100 \<and>
   calculate_rsi [1, 2] 14 = None"
proof -
  have l: "rsi_avg_loss [1, 2, 3, 4, 5, 6, 7, 8, 9, 10, 11, 12, 13, 14, 15] 14 = 0"
    by (simp add: rsi_avg_loss_def rsi_losses_def np_diff_def py_tail_def np_mean_def)
  have a: "calculate_rsi [1, 2, 3, 4, 5, 6, 7, 8, 9, 10, 11, 12, 13, 14, 15] 14 = Some 100"
    using calculate_rsi_range [of 14 "[1, 2, 3, 4, 5, 6, 7, 8, 9, 10, 11, 12, 13, 14, 15]"] l
    by simp
  have b: "calculate_rsi [1, 2] 14 = None"
    using calculate_rsi_range [of 14 "[1, 2]"] by simp
  from a b show ?thesis by (rule conjI)
qed

section \<open>Properties of the signal generator\<close>

lemma classify_signal_hold: "classify_signal ws = ''HOLD'' \<longleftrightarrow> \<bar>ws\<bar> \<le> 0.3"
proof -
  have a: "0.3 < ws \<Longrightarrow> classify_signal ws \<noteq> ''HOLD''"
    by (simp add: classify_signal_def)
  have b: "ws < - 0.3 \<Longrightarrow> classify_signal ws \<noteq> ''HOLD''"
    by (simp add: classify_signal_def)
  have c: "\<not> 0.3 < ws \<Longrightarrow> \<not> ws < - 0.3 \<Longrightarrow> classify_signal ws = ''HOLD''"
    by (simp add: classify_signal_def)
  show ?thesis
  proof (cases "0.3 < ws")
    case True
    with a show ?thesis by linarith
  next
    case f1: False
    show ?thesis
    proof (cases "ws < - 0.3")
      case True
      with b show ?thesis by linarith
    next
      case False
      with f1 c show ?thesis by linarith
    qed
  qed
qed

lemma analyze_signals_not_hold:
  assumes "fst (analyze_signals l t v p) \<noteq> ''HOLD''"
  shows "0.3 < \<bar>weighted_signal (collect_votes l t p)\<bar> \<and>
         snd (analyze_signals l t v p) = min \<bar>weighted_signal (collect_votes l t p)\<bar> 1"
proof (cases "collect_votes l t p = []")
  case True
  then have "fst (analyze_signals l t v p) = ''HOLD''"
    by (simp add: analyze_signals_def)
  with assms show ?thesis by simp
next
  case False
  then have eq: "analyze_signals l t v p =
      (classify_signal (weighted_signal (collect_votes l t p)),
       min \<bar>weighted_signal (collect_votes l t p)\<bar> 1)"
    by (simp add: analyze_signals_def Let_def)
  with assms have "classify_signal (weighted_signal (collect_votes l t p)) \<noteq> ''HOLD''"
    by simp
  then have "\<not> \<bar>weighted_signal (collect_votes l t p)\<bar> \<le> 0.3"
    unfolding classify_signal_hold .
  then show ?thesis using eq by simp
qed

text \<open>
  C7. Every signal that \<open>generate_trading_signal\<close> returns has a confidence between 0
  and 1, a confidence of at least 0.6, and comes from a weighted score of magnitude
  above 0.3; the confidence is the magnitude of that score, capped at 1. So no signal is
  returned in the HOLD region, and a candidate of confidence below 0.6 is discarded.
\<close>

theorem generate_trading_signal_confidence:
  assumes "generate_trading_signal new_id pair rows = Some s"
  shows "0 \<le> confidence s \<and> confidence s \<le> 1 \<and> 0.6 \<le> confidence s \<and>
         0.3 < \<bar>weighted_signal (signal_votes rows)\<bar> \<and>
         confidence s = min \<bar>weighted_signal (signal_votes rows)\<bar> 1"
proof -
  define cand where "cand = analyze_signals (hd rows)
      (calculate_trend_strength (map close_price (rev rows)) 20)
      (calculate_volatility (map close_price (rev rows)) 20)
      (analyze_volume_profile (map volume (rev rows)) 20)"
  have gate: "fst cand \<noteq> ''HOLD'' \<and> \<not> snd cand < 0.6 \<and> confidence s = snd cand"
    using assms unfolding generate_trading_signal_def Let_def cand_def [symmetric]
    by (auto split: if_splits option.splits)
  then have nh: "fst cand \<noteq> ''HOLD''" by simp
  have ws: "0.3 < \<bar>weighted_signal (signal_votes rows)\<bar> \<and>
            snd cand = min \<bar>weighted_signal (signal_votes rows)\<bar> 1"
    using analyze_signals_not_hold [OF nh [unfolded cand_def]]
    unfolding cand_def signal_votes_def by simp
  from gate ws show ?thesis by auto
qed

lemma bull_prices: "map close_price (rev bull_rows) = [100, 100, 100, 100, 100, 100, 100,
     100, 100, 100, 100, 100, 100, 100, 100, 100, 100, 100, 100, 100, 100]"
  by (simp add: bull_rows_def bull_row_def)

lemma bull_volumes: "map volume (rev bull_rows) = [10, 10, 10, 10, 10, 10, 10,
     10, 10, 10, 10, 10, 10, 10, 10, 10, 10, 10, 10, 10, 10]"
  by (simp add: bull_rows_def bull_row_def)

lemma bull_trend: "calculate_trend_strength (map close_price (rev bull_rows)) 20 = 0"
  unfolding bull_prices
  by (simp add: calculate_trend_strength_def py_tail_def polyfit_slope_def np_mean_def upt_rec)

lemma bull_volume_profile: "analyze_volume_profile (map volume (rev bull_rows)) 20 = ''MEDIUM''"
  unfolding bull_volumes
  by (simp add: analyze_volume_profile_def py_tail_def np_mean_def)

lemma bull_volatility: "calculate_volatility (map close_price (rev bull_rows)) 20 = Some 0"
  unfolding bull_prices
  by (simp add: calculate_volatility_def py_tail_def np_std_def np_diff_def np_mean_def)

lemma bull_votes: "signal_votes bull_rows = [(1, 0.3), (1, 0.25), (1, 0.2)]"
  unfolding signal_votes_def bull_trend bull_volume_profile
  by (simp add: collect_votes_def rsi_votes_def macd_votes_def sma_votes_def bull_rows_def bull_row_def)

lemma bull_weighted: "weighted_signal (signal_votes bull_rows) = 1"
  unfolding bull_votes by (simp add: weighted_signal_def)

lemma bull_candidate:
  "analyze_signals (hd bull_rows) 0 (Some 0) ''MEDIUM'' = (''STRONG_BUY'', 1)"
  using bull_votes bull_weighted
  unfolding signal_votes_def bull_trend bull_volume_profile
  by (simp add: analyze_signals_def classify_signal_def)

lemma bull_signal: "\<exists>s. generate_trading_signal 7 3 bull_rows = Some s"
  unfolding generate_trading_signal_def Let_def bull_trend bull_volume_profile bull_volatility
    bull_candidate
  by (simp add: bull_rows_def)

theorem generate_trading_signal_confidence_witness:
  "\<exists>s. generate_trading_signal 7 3 bull_rows = Some s \<and> confidence s = 1"
proof -
  from bull_signal obtain s where s: "generate_trading_signal 7 3 bull_rows = Some s" ..
  from generate_trading_signal_confidence [OF s] bull_weighted
  have "confidence s = 1" by simp
  with s show ?thesis by blast
qed

section \<open>Short series\<close>

text \<open>
  C6, as the code has it. On a series shorter than its window, \<open>calculate_rsi\<close> and
  \<open>calculate_volatility\<close> return \<open>None\<close>, \<open>calculate_macd\<close> and
  \<open>calculate_bollinger_bands\<close> return three times \<open>None\<close>, \<open>identify_support_resistance\<close>
  returns twice \<open>None\<close>, \<open>calculate_moving_averages\<close> leaves the period out,
  \<open>analyze_volume_profile\<close> returns the marker \<open>UNKNOWN\<close>, and
  \<open>calculate_trend_strength\<close> returns the number 0.
\<close>

theorem short_series_results:
  "(length prices < period + 1 \<longrightarrow>
      calculate_rsi prices period = None \<and> calculate_volatility prices period = None) \<and>
   (length prices < slow + signal \<longrightarrow>
      calculate_macd prices fast slow signal = (None, None, None)) \<and>
   (length prices < period \<longrightarrow>
      calculate_bollinger_bands prices period k = (None, None, None) \<and>
      calculate_moving_averages prices periods period = None \<and>
      analyze_volume_profile prices period = ''UNKNOWN'' \<and>
      calculate_trend_strength prices period = 0) \<and>
   (length highs < lookback \<or> length lows < lookback \<longrightarrow>
      identify_support_resistance highs lows lookback = (None, None))"
proof (intro conjI impI)
  assume "length prices < period + 1"
  then show "calculate_rsi prices period = None" by (simp add: calculate_rsi_def)
next
  assume "length prices < period + 1"
  then show "calculate_volatility prices period = None" by (simp add: calculate_volatility_def)
next
  assume "length prices < slow + signal"
  then show "calculate_macd prices fast slow signal = (None, None, None)"
    by (simp add: calculate_macd_def)
next
  assume "length prices < period"
  then show "calculate_bollinger_bands prices period k = (None, None, None)"
    by (simp add: calculate_bollinger_bands_def)
next
  assume "length prices < period"
  then show "calculate_moving_averages prices periods period = None"
    by (simp add: calculate_moving_averages_def)
next
  assume "length prices < period"
  then show "analyze_volume_profile prices period = ''UNKNOWN''"
    by (simp add: analyze_volume_profile_def)
next
  assume "length prices < period"
  then show "calculate_trend_strength prices period = 0"
    by (simp add: calculate_trend_strength_def)
next
  assume "length highs < lookback \<or> length lows < lookback"
  then show "identify_support_resistance highs lows lookback = (None, None)"
    by (auto simp add: identify_support_resistance_def)
qed

theorem short_series_results_witness:
  "calculate_rsi [100, 101, 102] 14 = None \<and>
   calculate_volatility [100, 101, 102] 14 = None \<and>
   calculate_macd [100, 101, 102] 12 26 9 = (None, None, None) \<and>
   calculate_bollinger_bands [100, 101, 102] 14 2 = (None, None, None) \<and>
   calculate_moving_averages [100, 101, 102] [20, 50] 14 = None \<and>
   analyze_volume_profile [100, 101, 102] 14 = ''UNKNOWN'' \<and>
   calculate_trend_strength [100, 101, 102] 14 = 0 \<and>
   identify_support_resistance [100, 101, 102] [100, 101, 102] 20 = (None, None)"
  using short_series_results [of "[100, 101, 102]" 14 26 9 12 2 "[20, 50]"
          "[100, 101, 102]" 20 "[100, 101, 102]"]
  by simp

text \<open>The claim as the specification words it fails for the trend strength: on three
  samples with a window of 20 it returns the number 0, the value it also computes for a
  flat series of full length.\<close>

theorem trend_strength_short_counterexample:
  "length [100, 101, 102 :: real] < 20 \<and>
   calculate_trend_strength [100, 101, 102] 20 = 0 \<and>
   calculate_trend_strength (map close_price (rev bull_rows)) 20 = 0"
proof -
  have "calculate_trend_strength [100, 101, 102] 20 = 0"
    by (simp add: calculate_trend_strength_def)
  then show ?thesis using bull_trend by simp
qed

section \<open>Properties of the risk gate\<close>

lemma position_alerts_not_high:
  "list_ex (\<lambda>a. severity a = ''HIGH'') (position_alerts pf ps) = False"
  by (simp add: position_alerts_def list_ex_iff)

lemma execute_high_nothing:
  "risk_status (check_risk_limits st) = ''HIGH'' \<Longrightarrow> execute_trading_signals st signals = ([], st)"
  by (simp add: execute_trading_signals_def split: option.splits)

text \<open>
  On a total balance that is not zero the check runs to its end: the reported status is
  HIGH if there is an alert of severity HIGH, else MEDIUM if there is any alert, else
  LOW; there is a HIGH alert exactly when the daily loss exceeds \<open>max_daily_loss_pct\<close> of
  the balance or the total exposure is above 50 percent of it; and whenever the status
  is HIGH, \<open>execute_trading_signals\<close> returns no position and leaves the state as it was.
\<close>

lemma check_risk_limits_status:
  assumes "portfolio st = Some pf" and "total_balance_usd pf \<noteq> 0"
  shows "risk_status (check_risk_limits st) =
           (if list_ex (\<lambda>a. severity a = ''HIGH'') (alerts (check_risk_limits st)) then ''HIGH''
            else if alerts (check_risk_limits st) \<noteq> [] then ''MEDIUM'' else ''LOW'') \<and>
         (list_ex (\<lambda>a. severity a = ''HIGH'') (alerts (check_risk_limits st)) \<longleftrightarrow>
            daily_pnl pf < - (total_balance_usd pf * (max_daily_loss_pct pf / 100)) \<or>
            50 < total_exposure_usd pf / total_balance_usd pf * 100) \<and>
         (risk_status (check_risk_limits st) = ''HIGH'' \<longrightarrow>
            execute_trading_signals st signals = ([], st))"
proof (intro conjI)
  show "risk_status (check_risk_limits st) =
           (if list_ex (\<lambda>a. severity a = ''HIGH'') (alerts (check_risk_limits st)) then ''HIGH''
            else if alerts (check_risk_limits st) \<noteq> [] then ''MEDIUM'' else ''LOW'')"
    using assms by (simp add: check_risk_limits_def Let_def)
  show "list_ex (\<lambda>a. severity a = ''HIGH'') (alerts (check_risk_limits st)) \<longleftrightarrow>
            daily_pnl pf < - (total_balance_usd pf * (max_daily_loss_pct pf / 100)) \<or>
            50 < total_exposure_usd pf / total_balance_usd pf * 100"
    using assms by (simp add: check_risk_limits_def Let_def position_alerts_not_high)
  show "risk_status (check_risk_limits st) = ''HIGH'' \<longrightarrow>
            execute_trading_signals st signals = ([], st)"
    using execute_high_nothing by blast
qed

lemma losing_state_high:
  "risk_status (check_risk_limits losing_state) = ''HIGH'' \<and>
   execute_trading_signals losing_state [example_signal] = ([], losing_state)"
proof -
  have p: "portfolio losing_state = Some (example_portfolio\<lparr>daily_pnl := - 300\<rparr>)"
    by (simp add: losing_state_def example_state_def)
  have b: "total_balance_usd (example_portfolio\<lparr>daily_pnl := - 300\<rparr>) \<noteq> 0"
    by (simp add: example_portfolio_def)
  have l: "daily_pnl (example_portfolio\<lparr>daily_pnl := - 300\<rparr>) <
        - (total_balance_usd (example_portfolio\<lparr>daily_pnl := - 300\<rparr>) *
           (max_daily_loss_pct (example_portfolio\<lparr>daily_pnl := - 300\<rparr>) / 100))"
    by (simp add: example_portfolio_def)
  from check_risk_limits_status [OF p b, of "[example_signal]"] l
  show ?thesis by presburger
qed

lemma example_round: "py_round 2 2 = 2"
  by (simp add: py_round_def round_half_even_def)

lemma zero_balance_entry:
  "fst (create_bracket_order zero_balance_state example_signal 200) \<noteq> None"
  by (simp add: create_bracket_order_def zero_balance_state_def example_state_def
        example_pair_def example_signal_def example_round place_order_def kraken_call_def
        Let_def)

lemma zero_balance_executes:
  "length (fst (execute_trading_signals zero_balance_state [example_signal])) = 1"
proof -
  define pf where "pf = example_portfolio\<lparr>total_balance_usd := 0, daily_pnl := - 10\<rparr>"
  have p: "portfolio zero_balance_state = Some pf"
    by (simp add: zero_balance_state_def example_state_def pf_def)
  have e: "is_trading_enabled pf" by (simp add: pf_def example_portfolio_def)
  have a: "available_balance_usd pf = 10000" by (simp add: pf_def example_portfolio_def)
  have u: "risk_status (check_risk_limits zero_balance_state) = ''UNKNOWN''"
    using p by (simp add: check_risk_limits_def pf_def)
  have "execute_trading_signals zero_balance_state [example_signal] =
      execute_signals pf [example_signal] zero_balance_state"
    using p e u by (simp add: execute_trading_signals_def)
  moreover have "length (fst (execute_signals pf [example_signal] zero_balance_state)) = 1"
    using zero_balance_entry a
    by (auto simp add: Let_def example_signal_def split: option.splits)
  ultimately show ?thesis by simp
qed

text \<open>
  C3 asks for the status HIGH whenever a HIGH alert exists, such as a daily loss above
  \<open>max_daily_loss_pct\<close> of the balance. The code breaks this on a total balance of zero:
  the loss of 10 exceeds the limit of 0, but the check then divides the exposure by the
  balance, the handler catches the ZeroDivisionError, and the report is UNKNOWN with no
  alert; \<open>execute_trading_signals\<close>, which stops only on HIGH, opens a position. With a
  balance of 400 the same loss is reported HIGH and nothing is opened.
\<close>

theorem zero_balance_loss_reported_unknown:
  "daily_pnl (the (portfolio zero_balance_state)) <
     - (total_balance_usd (the (portfolio zero_balance_state)) *
        (max_daily_loss_pct (the (portfolio zero_balance_state)) / 100)) \<and>
   check_risk_limits zero_balance_state = \<lparr>alerts = [], risk_status = ''UNKNOWN''\<rparr> \<and>
   length (fst (execute_trading_signals zero_balance_state [example_signal])) = 1 \<and>
   risk_status (check_risk_limits small_balance_state) = ''HIGH'' \<and>
   execute_trading_signals small_balance_state [example_signal] = ([], small_balance_state)"
proof -
  have loss: "daily_pnl (the (portfolio zero_balance_state)) <
     - (total_balance_usd (the (portfolio zero_balance_state)) *
        (max_daily_loss_pct (the (portfolio zero_balance_state)) / 100))"
    by (simp add: zero_balance_state_def example_state_def example_portfolio_def)
  have unknown: "check_risk_limits zero_balance_state =
      \<lparr>alerts = [], risk_status = ''UNKNOWN''\<rparr>"
    by (simp add: zero_balance_state_def example_state_def check_risk_limits_def)
  have high: "risk_status (check_risk_limits small_balance_state) = ''HIGH''"
    by (simp add: small_balance_state_def example_state_def example_portfolio_def
          check_risk_limits_def Let_def)
  then have blocked: "execute_trading_signals small_balance_state [example_signal] =
      ([], small_balance_state)"
    by (rule execute_high_nothing)
  from loss unknown zero_balance_executes high blocked show ?thesis by (intro conjI)
qed

text \<open>
  C10. When the risk check fails internally (no portfolio row, or a total balance of
  zero, on which it divides), \<open>check_risk_limits\<close> returns no alerts and the status
  UNKNOWN; and under the status UNKNOWN, with trading enabled, \<open>execute_trading_signals\<close>
  runs its loop over the three most confident signals, exactly as under LOW: positions
  may be opened.
\<close>

theorem risk_check_failure_not_blocking:
  "(portfolio st = None \<longrightarrow>
      check_risk_limits st = \<lparr>alerts = [], risk_status = ''UNKNOWN''\<rparr>) \<and>
   (portfolio st = Some pf \<and> total_balance_usd pf = 0 \<longrightarrow>
      check_risk_limits st = \<lparr>alerts = [], risk_status = ''UNKNOWN''\<rparr>) \<and>
   (portfolio st = Some pf \<and> is_trading_enabled pf \<and>
    risk_status (check_risk_limits st) = ''UNKNOWN'' \<longrightarrow>
      execute_trading_signals st signals =
        execute_signals pf (take 3 (sort_key (\<lambda>sg. - confidence sg) signals)) st)"
proof (intro conjI impI)
  assume "portfolio st = None"
  then show "check_risk_limits st = \<lparr>alerts = [], risk_status = ''UNKNOWN''\<rparr>"
    by (simp add: check_risk_limits_def)
next
  assume "portfolio st = Some pf \<and> total_balance_usd pf = 0"
  then show "check_risk_limits st = \<lparr>alerts = [], risk_status = ''UNKNOWN''\<rparr>"
    by (simp add: check_risk_limits_def)
next
  assume "portfolio st = Some pf \<and> is_trading_enabled pf \<and>
    risk_status (check_risk_limits st) = ''UNKNOWN''"
  then show "execute_trading_signals st signals =
        execute_signals pf (take 3 (sort_key (\<lambda>sg. - confidence sg) signals)) st"
    by (simp add: execute_trading_signals_def)
qed

theorem risk_check_failure_not_blocking_witness:
  "check_risk_limits zero_balance_state = \<lparr>alerts = [], risk_status = ''UNKNOWN''\<rparr> \<and>
   length (fst (execute_trading_signals zero_balance_state [example_signal])) = 1"
proof -
  define pf where "pf = example_portfolio\<lparr>total_balance_usd := 0, daily_pnl := - 10\<rparr>"
  have p: "portfolio zero_balance_state = Some pf"
    by (simp add: zero_balance_state_def example_state_def pf_def)
  have z: "total_balance_usd pf = 0" by (simp add: pf_def)
  have e: "is_trading_enabled pf" by (simp add: pf_def example_portfolio_def)
  have a: "available_balance_usd pf = 10000" by (simp add: pf_def example_portfolio_def)
  note inst = risk_check_failure_not_blocking [of zero_balance_state pf "[example_signal]"]
  from inst p z have u: "check_risk_limits zero_balance_state =
      \<lparr>alerts = [], risk_status = ''UNKNOWN''\<rparr>" by blast
  then have "risk_status (check_risk_limits zero_balance_state) = ''UNKNOWN''" by simp
  with inst p e have "execute_trading_signals zero_balance_state [example_signal] =
      execute_signals pf [example_signal] zero_balance_state" by simp
  moreover have "length (fst (execute_signals pf [example_signal] zero_balance_state)) = 1"
    using zero_balance_entry a
    by (auto simp add: Let_def example_signal_def split: option.splits)
  ultimately show ?thesis using u by simp
qed

section \<open>Properties of the portfolio accountant\<close>

lemma update_keeps_balances:
  "total_balance_usd (update_portfolio_metrics m pf) = total_balance_usd pf"
  "available_balance_usd (update_portfolio_metrics m pf) = available_balance_usd pf"
  by (simp_all add: update_portfolio_metrics_def)

lemma compute_metrics_update:
  "compute_metrics (update_portfolio_metrics m pf) ps d = compute_metrics pf ps d"
  unfolding compute_metrics_def update_keeps_balances ..

text \<open>
  C9. Recomputing the portfolio metrics right after a computation, on the same calendar
  day, returns the same metrics: the first run changes only the portfolio columns it
  writes, and the computation reads the ledger and the two balances.
\<close>

theorem calculate_portfolio_metrics_idempotent:
  assumes "date_of t = date_of (clock st)"
  shows "fst (calculate_portfolio_metrics (snd (calculate_portfolio_metrics st)\<lparr>clock := t\<rparr>)) =
         fst (calculate_portfolio_metrics st)"
proof (cases "portfolio st")
  case None
  then show ?thesis by (simp add: calculate_portfolio_metrics_def)
next
  case (Some pf)
  show ?thesis
  proof (cases "compute_metrics pf (positions st) (date_of (clock st))")
    case None
    with Some assms show ?thesis by (simp add: calculate_portfolio_metrics_def)
  next
    case m: (Some m)
    with Some assms show ?thesis
      by (simp add: calculate_portfolio_metrics_def compute_metrics_update)
  qed
qed

theorem calculate_portfolio_metrics_idempotent_witness:
  "date_of 7200 = date_of (clock ledger_state) \<and>
   fst (calculate_portfolio_metrics ledger_state) \<noteq> None \<and>
   fst (calculate_portfolio_metrics
          (snd (calculate_portfolio_metrics ledger_state)\<lparr>clock := 7200\<rparr>)) =
   fst (calculate_portfolio_metrics ledger_state)"
proof -
  have d: "date_of 7200 = date_of (clock ledger_state)"
    by (simp add: date_of_def ledger_state_def example_state_def)
  have "compute_metrics example_portfolio [example_long, example_closed] (date_of 0) \<noteq> None"
    by (simp add: compute_metrics_def example_long_def example_closed_def has_price_def
          position_pnl_def Let_def)
  then have s: "fst (calculate_portfolio_metrics ledger_state) \<noteq> None"
    by (auto simp add: calculate_portfolio_metrics_def ledger_state_def example_state_def
          split: option.splits)
  from d s calculate_portfolio_metrics_idempotent [OF d] show ?thesis by blast
qed

section \<open>Properties of the bracket order manager\<close>

lemma place_order_cases:
  "place_order st pair signal ord_type ord_side amt price = r \<Longrightarrow>
   (fst r = None \<and> positions (snd r) = positions st \<and> orders (snd r) = orders st \<and>
    active_bracket_orders (snd r) = active_bracket_orders st \<and>
    next_id (snd r) = next_id st \<and> crypto_pairs (snd r) = crypto_pairs st) \<or>
   (\<exists>ord. fst r = Some ord \<and> kraken st (length (kraken_log st)) \<noteq> KrakenError)"
  unfolding place_order_def kraken_call_def Let_def
  by (auto split: option.splits kraken_reply.splits)

lemma place_order_kraken_error:
  "kraken st (length (kraken_log st)) = KrakenError \<Longrightarrow>
   fst (place_order st pair signal ord_type ord_side amt price) = None"
  using place_order_cases [OF refl, of st pair signal ord_type ord_side amt price] by auto

lemma place_order_none_ledger:
  "fst (place_order st pair signal ord_type ord_side amt price) = None \<Longrightarrow>
   positions (snd (place_order st pair signal ord_type ord_side amt price)) = positions st \<and>
   orders (snd (place_order st pair signal ord_type ord_side amt price)) = orders st \<and>
   active_bracket_orders (snd (place_order st pair signal ord_type ord_side amt price)) =
     active_bracket_orders st"
  using place_order_cases [OF refl, of st pair signal ord_type ord_side amt price] by auto

text \<open>
  C4. \<open>create_bracket_order\<close> is atomic for the ledger. When the amount (notional over
  entry price, rounded to the pair's volume precision) is below the pair's minimum
  order size, it returns no position and the state it was given. When the exchange
  refuses the entry order, it returns no position. And whenever it returns no position,
  the tables of positions and orders and the bracket correlations are as before.
\<close>

theorem create_bracket_order_atomic:
  "(find (\<lambda>cp. pair_id cp = sig_pair_id signal) (crypto_pairs st) = Some pair \<and>
    sig_entry_price signal \<noteq> 0 \<and>
    py_round (usd / sig_entry_price signal) (volume_precision pair) < min_order_size pair \<longrightarrow>
      create_bracket_order st signal usd = (None, st)) \<and>
   (kraken st (length (kraken_log st)) = KrakenError \<longrightarrow>
      fst (create_bracket_order st signal usd) = None) \<and>
   (fst (create_bracket_order st signal usd) = None \<longrightarrow>
      positions (snd (create_bracket_order st signal usd)) = positions st \<and>
      orders (snd (create_bracket_order st signal usd)) = orders st \<and>
      active_bracket_orders (snd (create_bracket_order st signal usd)) =
        active_bracket_orders st)"
proof (intro conjI impI)
  assume "find (\<lambda>cp. pair_id cp = sig_pair_id signal) (crypto_pairs st) = Some pair \<and>
    sig_entry_price signal \<noteq> 0 \<and>
    py_round (usd / sig_entry_price signal) (volume_precision pair) < min_order_size pair"
  then show "create_bracket_order st signal usd = (None, st)"
    by (simp add: create_bracket_order_def)
next
  assume "kraken st (length (kraken_log st)) = KrakenError"
  then show "fst (create_bracket_order st signal usd) = None"
    unfolding create_bracket_order_def Let_def
    by (simp add: place_order_kraken_error split: option.splits)
next
  assume n: "fst (create_bracket_order st signal usd) = None"
  then show "positions (snd (create_bracket_order st signal usd)) = positions st"
    unfolding create_bracket_order_def Let_def
    by (auto simp add: place_order_none_ledger split: option.splits if_splits)
  from n show "orders (snd (create_bracket_order st signal usd)) = orders st"
    unfolding create_bracket_order_def Let_def
    by (auto simp add: place_order_none_ledger split: option.splits if_splits)
  from n show "active_bracket_orders (snd (create_bracket_order st signal usd)) =
        active_bracket_orders st"
    unfolding create_bracket_order_def Let_def
    by (auto simp add: place_order_none_ledger split: option.splits if_splits)
qed

lemma small_round: "py_round (1 / 2000) 2 = 0"
  by (simp add: py_round_def round_half_even_def)

theorem create_bracket_order_atomic_witness:
  "create_bracket_order example_state example_signal (1 / 20) = (None, example_state) \<and>
   fst (create_bracket_order rejecting_state example_signal 200) = None \<and>
   positions (snd (create_bracket_order rejecting_state example_signal 200)) = []"
proof -
  have f: "find (\<lambda>cp. pair_id cp = sig_pair_id example_signal) (crypto_pairs example_state)
             = Some example_pair"
    by (simp add: example_state_def example_pair_def example_signal_def)
  have p: "sig_entry_price example_signal \<noteq> 0" by (simp add: example_signal_def)
  have "1 / 20 / sig_entry_price example_signal = 1 / 2000" by (simp add: example_signal_def)
  then have a: "py_round (1 / 20 / sig_entry_price example_signal)
                 (volume_precision example_pair) < min_order_size example_pair"
    by (simp add: small_round example_pair_def)
  have a1: "create_bracket_order example_state example_signal (1 / 20) = (None, example_state)"
    using create_bracket_order_atomic [of example_signal example_state example_pair "1 / 20"]
      f p a by blast
  have k: "kraken rejecting_state (length (kraken_log rejecting_state)) = KrakenError"
    by (simp add: rejecting_state_def)
  have e: "positions rejecting_state = []"
    by (simp add: rejecting_state_def example_state_def)
  have a2: "fst (create_bracket_order rejecting_state example_signal 200) = None \<and>
        positions (snd (create_bracket_order rejecting_state example_signal 200)) = []"
    using create_bracket_order_atomic [of example_signal rejecting_state example_pair 200]
      k e by simp
  from a1 a2 show ?thesis by blast
qed

lemma kraken_call_log:
  "kraken_call request st =
     (kraken st (length (kraken_log st)), st\<lparr>kraken_log := kraken_log st @ [request]\<rparr>)"
  by (simp add: kraken_call_def)

lemma cancel_reference_ok:
  assumes "find (\<lambda>ord. order_id ord = k) (orders st) = Some order_data"
    and "kraken_order_id order_data = Some kid" and "kid \<noteq> []"
    and "kraken st (length (kraken_log st)) = KrakenResult r"
  shows "cancel_reference (Some k) st =
           (True, st\<lparr>kraken_log := kraken_log st @ [CancelOrder kid]\<rparr>)"
  using assms by (simp add: cancel_reference_def cancel_if_known_def kraken_call_def)

lemma place_order_refused:
  assumes "find (\<lambda>cp. pair_id cp = pair) (crypto_pairs st) = Some pair_data"
    and "kraken st (length (kraken_log st)) = KrakenError"
  shows "place_order st pair signal ''market'' ord_side amt price =
           (None, st\<lparr>kraken_log := kraken_log st @
              [AddOrder (symbol pair_data) ord_side ''market'' amt None]\<rparr>)"
  using assms by (simp add: place_order_def kraken_call_def)

text \<open>
  C5. \<open>close_position\<close> cancels the protective orders before it tries the closing market
  order, and rolls nothing back. For an open position whose entry order refers to a
  stop-loss and a take-profit order known to the exchange: when the exchange accepts
  both cancellations and then refuses the market order, \<open>close_position\<close> returns
  \<open>False\<close>, the tables of positions and orders are as before (the position is still
  open), and the exchange has received, in this order, the two cancellations and the
  market order.
\<close>

theorem close_position_failure:
  assumes "find (\<lambda>p. position_id p = pid \<and> is_open p) (positions st) = Some pos"
    and "find (\<lambda>p. position_id p = pid) (positions st) = Some pos"
    and "find (\<lambda>ord. order_id ord = entry_order_id pos) (orders st) = Some entry_order"
    and "stop_loss_order_id entry_order = Some stop_id"
    and "find (\<lambda>ord. order_id ord = stop_id) (orders st) = Some stop_order"
    and "kraken_order_id stop_order = Some stop_txid" and "stop_txid \<noteq> []"
    and "take_profit_order_id entry_order = Some target_id"
    and "find (\<lambda>ord. order_id ord = target_id) (orders st) = Some target_order"
    and "kraken_order_id target_order = Some target_txid" and "target_txid \<noteq> []"
    and "find (\<lambda>cp. pair_id cp = pos_pair_id pos) (crypto_pairs st) = Some pair_data"
    and "kraken st (length (kraken_log st)) = KrakenResult r1"
    and "kraken st (Suc (length (kraken_log st))) = KrakenResult r2"
    and "kraken st (Suc (Suc (length (kraken_log st)))) = KrakenError"
  shows "fst (close_position st pid) = False \<and>
         positions (snd (close_position st pid)) = positions st \<and>
         is_open pos \<and>
         orders (snd (close_position st pid)) = orders st \<and>
         kraken_log (snd (close_position st pid)) =
           kraken_log st @
             [CancelOrder stop_txid, CancelOrder target_txid,
              AddOrder (symbol pair_data) (if side pos = ''long'' then ''sell'' else ''buy'')
                ''market'' (remaining_amount pos) None]"
proof -
  define st1 where "st1 = st\<lparr>kraken_log := kraken_log st @ [CancelOrder stop_txid]\<rparr>"
  define st2 where "st2 = st1\<lparr>kraken_log := kraken_log st1 @ [CancelOrder target_txid]\<rparr>"
  have c1: "cancel_reference (Some stop_id) st = (True, st1)"
    unfolding st1_def using assms(5,6,7,13) by (rule cancel_reference_ok)
  have o1: "orders st1 = orders st" and l1: "length (kraken_log st1) = Suc (length (kraken_log st))"
    and k1: "kraken st1 = kraken st"
    by (simp_all add: st1_def)
  have c2: "cancel_reference (Some target_id) st1 = (True, st2)"
    unfolding st2_def
    by (rule cancel_reference_ok [where r = r2 and order_data = target_order])
      (simp_all add: o1 l1 k1 assms)
  have cancelled: "cancel_position_orders st pid = st2"
    using assms(2,3,4,8) c1 c2 by (simp add: cancel_position_orders_def)
  have p2: "find (\<lambda>cp. pair_id cp = pos_pair_id pos) (crypto_pairs st2) = Some pair_data"
    and k2: "kraken st2 (length (kraken_log st2)) = KrakenError"
    using assms(12,15) by (simp_all add: st2_def st1_def)
  have closed: "close_position st pid =
      (False, st2\<lparr>kraken_log := kraken_log st2 @
         [AddOrder (symbol pair_data) (if side pos = ''long'' then ''sell'' else ''buy'')
            ''market'' (remaining_amount pos) None]\<rparr>)"
    using assms(1) cancelled place_order_refused [OF p2 k2]
    by (simp add: close_position_def)
  have "is_open pos" using assms(1) by (auto dest: find_Some_iff [THEN iffD1])
  then show ?thesis unfolding closed by (simp add: st2_def st1_def)
qed

theorem close_position_failure_witness:
  "fst (close_position protected_state 11) = False \<and>
   positions (snd (close_position protected_state 11)) = [example_long] \<and>
   is_open example_long \<and>
   kraken_log (snd (close_position protected_state 11)) =
     [CancelOrder ''SL1'', CancelOrder ''TP1'',
      AddOrder ''XBTUSD'' ''sell'' ''market'' 2 None]"
proof -
  note inst = close_position_failure [of 11 protected_state example_long example_entry_order
      12 example_stop_order "''SL1''" 13 example_target_order "''TP1''" example_pair
      "Some ''TX''" "Some ''TX''"]
  have "fst (close_position protected_state 11) = False \<and>
         positions (snd (close_position protected_state 11)) = positions protected_state \<and>
         is_open example_long \<and>
         orders (snd (close_position protected_state 11)) = orders protected_state \<and>
         kraken_log (snd (close_position protected_state 11)) =
           kraken_log protected_state @
             [CancelOrder ''SL1'', CancelOrder ''TP1'',
              AddOrder (symbol example_pair)
                (if side example_long = ''long'' then ''sell'' else ''buy'')
                ''market'' (remaining_amount example_long) None]"
    by (rule inst)
      (simp_all add: protected_state_def example_state_def example_long_def
        example_entry_order_def example_stop_order_def example_target_order_def
        example_pair_def)
  then show ?thesis
    by (simp add: protected_state_def example_state_def example_long_def example_pair_def)
qed

lemma handle_entry_fill_drops_entry:
  "active_bracket_orders (handle_entry_fill st entry_order filled average)
     (order_id entry_order) = None"
  by (simp add: handle_entry_fill_def Let_def split: option.splits prod.splits)

lemma after_fill_eq:
  "after_fill = pending_state\<lparr>
     orders := [pending_entry_order\<lparr>order_status := ''closed'', filled_amount := 2,
                  average_price := Some (201 / 2), fee := Some 0\<rparr>,
                \<lparr>order_id = 100, kraken_order_id = Some ''TX'', order_pair_id = 1,
                 order_signal_id = Some 7, order_type = ''limit'', order_side = ''sell'',
                 order_amount = 2, order_price = Some 104, order_status = ''open'',
                 filled_amount = 0, average_price = None, stop_loss_order_id = None,
                 take_profit_order_id = None, fee = None\<rparr>],
     positions := [pending_position\<lparr>entry_price := Some (201 / 2),
                     current_price := Some (201 / 2), remaining_amount := 2\<rparr>],
     active_bracket_orders := Map.empty,
     next_id := 101,
     kraken_log := [AddOrder ''XBTUSD'' ''sell'' ''limit'' 2 (Some 98),
                    AddOrder ''XBTUSD'' ''sell'' ''limit'' 2 (Some 104)]\<rparr>"
  by (simp add: after_fill_def update_order_status_def handle_entry_fill_def
        update_order_def update_position_def place_order_def kraken_call_def Let_def
        pending_state_def example_state_def pending_entry_order_def example_entry_order_def
        pending_position_def example_long_def pending_bracket_def filled_report_def
        example_pair_def)

lemma entry_fill_protected_example:
  "map (\<lambda>ord. (order_id ord, order_type ord, order_status ord, order_amount ord,
               stop_loss_order_id ord, take_profit_order_id ord))
     (orders (snd (update_order_status
        (pending_state\<lparr>kraken := (\<lambda>n. KrakenResult (Some ''TX''))\<rparr>)
        pending_entry_order filled_report))) =
     [(10, ''limit'', ''closed'', 2, Some 100, Some 101),
      (100, ''stop-loss'', ''open'', 2, None, None),
      (101, ''limit'', ''open'', 2, None, None)]"
  by (simp add: update_order_status_def handle_entry_fill_def
        update_order_def update_position_def place_order_def kraken_call_def Let_def
        pending_state_def example_state_def pending_entry_order_def example_entry_order_def
        pending_position_def example_long_def pending_bracket_def filled_report_def
        example_pair_def)

text \<open>
  C1 asks that a filled entry order ends either with one stop-loss and one take-profit
  order recorded on it, or unprotected and kept for a retry. The code does the first when
  both placements succeed (\<open>entry_fill_protected_example\<close>), but it deletes the bracket
  correlation in every case (\<open>handle_entry_fill_drops_entry\<close>). Here the exchange refuses
  the stop-loss order and accepts the take-profit order: afterwards the correlation is
  gone, the entry order is closed and carries no child reference, the position is open
  with its full amount, and the only order that the next reconciliation still asks about
  is the unreferenced take-profit order.
\<close>

theorem entry_fill_unprotected_dropped:
  "kraken pending_state (length (kraken_log pending_state)) = KrakenError \<and>
   active_bracket_orders pending_state 10 \<noteq> None \<and>
   active_bracket_orders after_fill 10 = None \<and>
   map (\<lambda>ord. (order_id ord, order_type ord, order_status ord, order_amount ord,
               stop_loss_order_id ord, take_profit_order_id ord)) (orders after_fill) =
     [(10, ''limit'', ''closed'', 2, None, None),
      (100, ''limit'', ''open'', 2, None, None)] \<and>
   map (\<lambda>pos. (position_id pos, is_open pos, remaining_amount pos)) (positions after_fill) =
     [(11, True, 2)] \<and>
   map order_id (open_orders_query after_fill) = [100]"
proof -
  have "kraken pending_state (length (kraken_log pending_state)) = KrakenError"
    by (simp add: pending_state_def example_state_def)
  moreover have "active_bracket_orders pending_state 10 \<noteq> None"
    by (simp add: pending_state_def)
  moreover have "active_bracket_orders after_fill 10 = None"
    by (simp add: after_fill_eq)
  moreover have "map (\<lambda>ord. (order_id ord, order_type ord, order_status ord, order_amount ord,
               stop_loss_order_id ord, take_profit_order_id ord)) (orders after_fill) =
     [(10, ''limit'', ''closed'', 2, None, None),
      (100, ''limit'', ''open'', 2, None, None)]"
    by (simp add: after_fill_eq pending_entry_order_def example_entry_order_def)
  moreover have "map (\<lambda>pos. (position_id pos, is_open pos, remaining_amount pos))
      (positions after_fill) = [(11, True, 2)]"
    by (simp add: after_fill_eq pending_position_def example_long_def)
  moreover have "map order_id (open_orders_query after_fill) = [100]"
    by (simp add: open_orders_query_def after_fill_eq pending_entry_order_def
          example_entry_order_def)
  ultimately show ?thesis by blast
qed

section \<open>Properties of the trailing stop\<close>















subsection \<open>Operations that leave the stop prices alone\<close>































subsection \<open>The monitoring tick\<close>







subsection \<open>Runs\<close>















end
